theory Spec2Isabelle
  imports Main
begin

section \<open>The AST consumed by the rule \<open>no-invalid-v-model\<close>\<close>

text \<open>
  The rule (\<^verbatim>\<open>lib/rules/no-invalid-v-model.js\<close>) reads a small part of the template AST.
  The fields the rule reads are modelled, and one it does not read (the position of an
  identifier in its parent); a field that may be \<^verbatim>\<open>null\<close> or \<^verbatim>\<open>undefined\<close> is an
  \<open>option\<close>.
\<close>

text \<open>
  An \<^verbatim>\<open>Identifier\<close> node: \<^verbatim>\<open>id.name\<close>, \<^verbatim>\<open>id.parent.type\<close>, and whether the identifier is
  the \<^verbatim>\<open>object\<close> child of its parent (\<^verbatim>\<open>id.parent.object === id\<close>). An identifier inside
  a value always has a parent, the expression container at the least. The rule reads the
  first two; the third is part of the tree the parser hands over and tells the \<open>a\<close> of
  \<^verbatim>\<open>a[x]\<close> (the object) from its \<open>x\<close> (the computed property), both of which have a
  \<^verbatim>\<open>MemberExpression\<close> as parent.
\<close>

record ident =
  id_name :: string
  id_parent_type :: string
  id_parent_object :: bool

text \<open>A variable of an element (\<^verbatim>\<open>v.id\<close>) and a reference of a value (\<^verbatim>\<open>reference.id\<close>).\<close>

record variable =
  var_id :: ident

record reference =
  ref_id :: ident

text \<open>
  A node on the parent chain that \<^verbatim>\<open>getVariable\<close> walks: \<^verbatim>\<open>node.name\<close>,
  \<^verbatim>\<open>node.variables\<close> (\<open>None\<close> on a node without the field) and \<^verbatim>\<open>node.parent\<close>
  (\<open>None\<close> at the root).
\<close>

datatype node = Node (name: string) (variables: "variable list option") (parent: "node option")

text \<open>An expression node, of which the rule reads \<^verbatim>\<open>node.type\<close> only.\<close>

record expression =
  expr_type :: string

text \<open>
  The value of a directive: \<^verbatim>\<open>node.value.expression\<close> (\<open>None\<close> for \<^verbatim>\<open>null\<close>) and
  \<^verbatim>\<open>node.value.references\<close>.
\<close>

record vexpression_container =
  expression :: "expression option"
  references :: "reference list"

text \<open>The key of a directive: \<^verbatim>\<open>node.key.argument\<close> and \<^verbatim>\<open>node.key.modifiers\<close>.\<close>

record vdirective_key =
  argument :: "string option"
  modifiers :: "string list"

text \<open>
  The directive node handed to the visitor: \<^verbatim>\<open>node.key\<close>, \<^verbatim>\<open>node.value\<close> (\<open>None\<close> for
  \<^verbatim>\<open>null\<close>) and the host element \<^verbatim>\<open>node.parent.parent\<close>.
\<close>

record vattribute =
  attr_key :: vdirective_key
  attr_value :: "vexpression_container option"
  parent_parent :: node

text \<open>
  One call of \<^verbatim>\<open>context.report\<close>: the message template and the \<^verbatim>\<open>data\<close> object
  (\<open>None\<close> when the call passes none). Every call passes the directive node and its
  location unchanged, so they are left out.
\<close>

record report =
  message :: string
  data :: "(string \<times> string) list option"

text \<open>
  The helpers of \<^verbatim>\<open>require('../utils')\<close> that the rule calls on the element. The module
  is not among the sources, so the three predicates are parameters of the model.
\<close>

record utils =
  isCustomComponent :: "node \<Rightarrow> bool"
  hasDirective :: "node \<Rightarrow> string \<Rightarrow> string \<Rightarrow> bool"
  hasAttribute :: "node \<Rightarrow> string \<Rightarrow> string \<Rightarrow> bool"

text \<open>
  Modelled from the spec: \<^verbatim>\<open>utils.hasAttributeValue\<close>, whose module is not among the
  sources. The spec's value-presence step reports when "the binding carries no value at
  all (no \<^verbatim>\<open>="..."\<close> form present, not merely an empty string)", and its data model has
  \<^verbatim>\<open>value == null\<close> exactly for such a binding.
\<close>

definition hasAttributeValue :: "vattribute \<Rightarrow> bool" where
  "hasAttributeValue node = (attr_value node \<noteq> None)"

section \<open>Helpers of the rule\<close>

definition VALID_MODIFIERS :: "string set" where
  "VALID_MODIFIERS = {''lazy'', ''number'', ''trim''}"

definition isValidElement :: "utils \<Rightarrow> node \<Rightarrow> bool" where
  "isValidElement u nd =
     (let nm = name nd in
        nm = ''input'' \<or>
        nm = ''select'' \<or>
        nm = ''textarea'' \<or>
        (nm \<noteq> ''keep-alive'' \<and>
         nm \<noteq> ''slot'' \<and>
         nm \<noteq> ''transition'' \<and>
         nm \<noteq> ''transition-group'' \<and>
         isCustomComponent u nd))"

definition isLhs :: "expression option \<Rightarrow> bool" where
  "isLhs nd =
     (case nd of
        None \<Rightarrow> False
      | Some e \<Rightarrow> expr_type e = ''Identifier'' \<or> expr_type e = ''MemberExpression'')"

text \<open>
  The loop of \<^verbatim>\<open>getVariable\<close> as recursion over the parent chain.
  \<^verbatim>\<open>variables && variables.find(...)\<close> is \<open>None\<close> when the node has no \<^verbatim>\<open>variables\<close>.
\<close>

fun getVariable :: "string \<Rightarrow> node option \<Rightarrow> variable option" where
  "getVariable nm None = None"
| "getVariable nm (Some (Node n vars p)) =
     (case (case vars of
              None \<Rightarrow> None
            | Some vs \<Rightarrow> find (\<lambda>v. id_name (var_id v) = nm) vs) of
        Some v \<Rightarrow> Some v
      | None \<Rightarrow> getVariable nm p)"

text \<open>JavaScript truthiness of a value that is a string or \<^verbatim>\<open>null\<close>.\<close>

definition truthy :: "string option \<Rightarrow> bool" where
  "truthy s = (case s of None \<Rightarrow> False | Some t \<Rightarrow> t \<noteq> [])"

section \<open>The reports\<close>

text \<open>
  The eight object literals that the visitor passes to \<^verbatim>\<open>context.report\<close>, each under
  the name the specification gives the finding. The message is the template as the
  source writes it; \<^verbatim>\<open>{{name}}\<close> is filled from \<open>data\<close> by the reporter.
\<close>

definition UnsupportedHost :: "string \<Rightarrow> report" where
  "UnsupportedHost nm =
     \<lparr>message = '''v-model' directives aren't supported on <{{name}}> elements.'',
      data = Some [(''name'', nm)]\<rparr>"

definition DynamicInputType :: "string \<Rightarrow> report" where
  "DynamicInputType nm =
     \<lparr>message = '''v-model' directives don't support dynamic input types.'',
      data = Some [(''name'', nm)]\<rparr>"

definition FileInputType :: "string \<Rightarrow> report" where
  "FileInputType nm =
     \<lparr>message = '''v-model' directives don't support 'file' input type.'',
      data = Some [(''name'', nm)]\<rparr>"

definition UnexpectedArgument :: report where
  "UnexpectedArgument =
     \<lparr>message = '''v-model' directives require no argument.'', data = None\<rparr>"

definition UnsupportedModifier :: "string \<Rightarrow> report" where
  "UnsupportedModifier modifier =
     \<lparr>message = '''v-model' directives don't support the modifier '{{name}}'.'',
      data = Some [(''name'', modifier)]\<rparr>"

definition MissingValue :: report where
  "MissingValue =
     \<lparr>message = '''v-model' directives require that attribute value.'', data = None\<rparr>"

definition InvalidLhs :: report where
  "InvalidLhs =
     \<lparr>message = '''v-model' directives require the attribute value which is valid as LHS.'',
      data = None\<rparr>"

definition SelfAliasing :: report where
  "SelfAliasing =
     \<lparr>message = '''v-model' directives cannot update the iteration variable 'x' itself.'',
      data = None\<rparr>"

section \<open>The visitor\<close>

text \<open>
  The handler for \<^verbatim>\<open>VAttribute[directive=true][key.name='model']\<close>, one definition for
  each of its statements, in the order of the source. Each returns the reports that the
  statement makes, in order.
\<close>

text \<open>Lines 88 to 95: the element check.\<close>

definition checkElement :: "utils \<Rightarrow> node \<Rightarrow> report list" where
  "checkElement u element =
     (if \<not> isValidElement u element then [UnsupportedHost (name element)] else [])"

text \<open>Lines 96 to 113: the two checks of the type of an \<^verbatim>\<open>input\<close>.\<close>

definition checkInputType :: "utils \<Rightarrow> node \<Rightarrow> report list" where
  "checkInputType u element =
     (if name element = ''input''
      then (if hasDirective u element ''bind'' ''type''
            then [DynamicInputType (name element)] else []) @
           (if hasAttribute u element ''type'' ''file''
            then [FileInputType (name element)] else [])
      else [])"

text \<open>Lines 115 to 121: \<^verbatim>\<open>if (node.key.argument)\<close> tests truthiness.\<close>

definition checkArgument :: "vattribute \<Rightarrow> report list" where
  "checkArgument node =
     (if truthy (argument (attr_key node)) then [UnexpectedArgument] else [])"

text \<open>Lines 123 to 132: the loop over \<^verbatim>\<open>node.key.modifiers\<close>.\<close>

fun checkModifiers :: "string list \<Rightarrow> report list" where
  "checkModifiers [] = []"
| "checkModifiers (modifier # rest) =
     (if modifier \<notin> VALID_MODIFIERS then [UnsupportedModifier modifier] else []) @
     checkModifiers rest"

text \<open>Lines 133 to 139.\<close>

definition checkValue :: "vattribute \<Rightarrow> report list" where
  "checkValue node = (if \<not> hasAttributeValue node then [MissingValue] else [])"

text \<open>
  Lines 149 to 163: the loop over \<^verbatim>\<open>node.value.references\<close>; \<^verbatim>\<open>continue\<close> skips a
  reference whose identifier has a \<^verbatim>\<open>MemberExpression\<close> as parent.
\<close>

fun checkReferences :: "node \<Rightarrow> reference list \<Rightarrow> report list" where
  "checkReferences element [] = []"
| "checkReferences element (reference # rest) =
     (let id' = ref_id reference in
        if id_parent_type id' = ''MemberExpression'' then []
        else (case getVariable (id_name id') (Some element) of
                None \<Rightarrow> []
              | Some variable \<Rightarrow> [SelfAliasing])) @
     checkReferences element rest"

text \<open>Lines 140 to 164: \<^verbatim>\<open>if (node.value)\<close>; an object is always truthy.\<close>

definition checkExpression :: "node \<Rightarrow> vattribute \<Rightarrow> report list" where
  "checkExpression element node =
     (case attr_value node of
        None \<Rightarrow> []
      | Some v \<Rightarrow>
          (if \<not> isLhs (expression v) then [InvalidLhs] else []) @
          checkReferences element (references v))"

text \<open>The whole handler: the reports of one \<^verbatim>\<open>v-model\<close> directive, in order.\<close>

definition create :: "utils \<Rightarrow> vattribute \<Rightarrow> report list" where
  "create u node =
     (let element = parent_parent node in
        checkElement u element @
        checkInputType u element @
        checkArgument node @
        checkModifiers (modifiers (attr_key node)) @
        checkValue node @
        checkExpression element node)"

section \<open>The specification's scope chain\<close>

text \<open>
  The specification describes resolution over a ScopeChain: a sequence of ScopeFrames,
  innermost first, each owning its Variables; \<^verbatim>\<open>resolveVariable\<close> walks the chain
  innermost-to-outermost and returns the first Variable with a matching name, or null.
  \<open>resolveVariable\<close> follows these words; \<open>scopeChain\<close> reads the frames off the parent
  chain of a node (a node without \<^verbatim>\<open>variables\<close> owns none).
\<close>

fun resolveVariable :: "string \<Rightarrow> variable list list \<Rightarrow> variable option" where
  "resolveVariable nm [] = None"
| "resolveVariable nm (frame # outer) =
     (case find (\<lambda>v. id_name (var_id v) = nm) frame of
        Some v \<Rightarrow> Some v
      | None \<Rightarrow> resolveVariable nm outer)"

fun scopeChain :: "node option \<Rightarrow> variable list list" where
  "scopeChain None = []"
| "scopeChain (Some (Node n vars p)) =
     (case vars of None \<Rightarrow> [] | Some vs \<Rightarrow> vs) # scopeChain p"

text \<open>
  The specification skips a reference that "occurs as the object of a property/member
  access (i.e., it is the base of \<^verbatim>\<open>r.x\<close>)". \<open>isObjectOfMember\<close> follows these words: the
  parent is a member access and the identifier is its object.
\<close>

definition isObjectOfMember :: "reference \<Rightarrow> bool" where
  "isObjectOfMember r =
     (id_parent_type (ref_id r) = ''MemberExpression'' \<and> id_parent_object (ref_id r))"

section \<open>Concrete inputs\<close>

text \<open>
  \<^verbatim>\<open><li v-for="x in xs"><input v-model="..."></li>\<close>: the \<^verbatim>\<open>li\<close> owns the iteration
  variable \<open>x\<close>, the \<^verbatim>\<open>input\<close> owns none, the root has no \<^verbatim>\<open>variables\<close> field.
\<close>

definition root_node :: node where
  "root_node = Node ''template'' None None"

definition li_node :: node where
  "li_node =
     Node ''li'' (Some [\<lparr>var_id = \<lparr>id_name = ''x'', id_parent_type = ''VForExpression'',
                       id_parent_object = False\<rparr>\<rparr>])
       (Some root_node)"

definition input_node :: node where
  "input_node = Node ''input'' (Some []) (Some li_node)"

definition div_node :: node where
  "div_node = Node ''div'' (Some []) (Some li_node)"

text \<open>Two instances of the helpers: one that answers no to everything, one that answers yes.\<close>

definition utils_no :: utils where
  "utils_no =
     \<lparr>isCustomComponent = (\<lambda>_. False), hasDirective = (\<lambda>_ _ _. False),
      hasAttribute = (\<lambda>_ _ _. False)\<rparr>"

definition utils_yes :: utils where
  "utils_yes =
     \<lparr>isCustomComponent = (\<lambda>_. True), hasDirective = (\<lambda>_ _ _. True),
      hasAttribute = (\<lambda>_ _ _. True)\<rparr>"

text \<open>The references \<open>x\<close> (written directly) and the \<open>x\<close> of \<open>x.y\<close>.\<close>

definition ref_x :: reference where
  "ref_x =
     \<lparr>ref_id = \<lparr>id_name = ''x'', id_parent_type = ''VExpressionContainer'',
                id_parent_object = False\<rparr>\<rparr>"

definition ref_x_member :: reference where
  "ref_x_member =
     \<lparr>ref_id = \<lparr>id_name = ''x'', id_parent_type = ''MemberExpression'',
                id_parent_object = True\<rparr>\<rparr>"

text \<open>The references of \<open>a[x]\<close>: \<open>a\<close> is the object, \<open>x\<close> the computed property.\<close>

definition ref_a_member :: reference where
  "ref_a_member =
     \<lparr>ref_id = \<lparr>id_name = ''a'', id_parent_type = ''MemberExpression'',
                id_parent_object = True\<rparr>\<rparr>"

definition ref_x_computed :: reference where
  "ref_x_computed =
     \<lparr>ref_id = \<lparr>id_name = ''x'', id_parent_type = ''MemberExpression'',
                id_parent_object = False\<rparr>\<rparr>"

text \<open>\<^verbatim>\<open><input v-model="x">\<close> and \<^verbatim>\<open><input v-model="x.y">\<close> inside the \<^verbatim>\<open>li\<close>.\<close>

definition model_x :: vattribute where
  "model_x =
     \<lparr>attr_key = \<lparr>argument = None, modifiers = []\<rparr>,
      attr_value = Some \<lparr>expression = Some \<lparr>expr_type = ''Identifier''\<rparr>,
                         references = [ref_x]\<rparr>,
      parent_parent = input_node\<rparr>"

definition model_x_y :: vattribute where
  "model_x_y =
     \<lparr>attr_key = \<lparr>argument = None, modifiers = []\<rparr>,
      attr_value = Some \<lparr>expression = Some \<lparr>expr_type = ''MemberExpression''\<rparr>,
                         references = [ref_x_member]\<rparr>,
      parent_parent = input_node\<rparr>"

text \<open>\<^verbatim>\<open><input v-model="a[x]">\<close> inside the \<^verbatim>\<open>li\<close>.\<close>

definition model_a_x :: vattribute where
  "model_a_x =
     \<lparr>attr_key = \<lparr>argument = None, modifiers = []\<rparr>,
      attr_value = Some \<lparr>expression = Some \<lparr>expr_type = ''MemberExpression''\<rparr>,
                         references = [ref_a_member, ref_x_computed]\<rparr>,
      parent_parent = input_node\<rparr>"

text \<open>\<^verbatim>\<open><div v-model.lazy.foo.trim.foo="f()">\<close>: a call as value, two illegal modifiers.\<close>

definition model_call :: vattribute where
  "model_call =
     \<lparr>attr_key = \<lparr>argument = None, modifiers = [''lazy'', ''foo'', ''trim'', ''foo'']\<rparr>,
      attr_value = Some \<lparr>expression = Some \<lparr>expr_type = ''CallExpression''\<rparr>,
                         references = []\<rparr>,
      parent_parent = div_node\<rparr>"

text \<open>\<^verbatim>\<open><input v-model>\<close>: no value.\<close>

definition model_no_value :: vattribute where
  "model_no_value =
     \<lparr>attr_key = \<lparr>argument = None, modifiers = []\<rparr>,
      attr_value = None,
      parent_parent = input_node\<rparr>"

text \<open>\<^verbatim>\<open><input v-model="">\<close>: a value whose expression is \<^verbatim>\<open>null\<close>.\<close>

definition model_empty :: vattribute where
  "model_empty =
     \<lparr>attr_key = \<lparr>argument = None, modifiers = []\<rparr>,
      attr_value = Some \<lparr>expression = None, references = []\<rparr>,
      parent_parent = input_node\<rparr>"

text \<open>\<^verbatim>\<open><input v-model:aaa="x">\<close> and \<^verbatim>\<open><input v-model:="x">\<close> (an empty argument).\<close>

definition model_arg :: vattribute where
  "model_arg = model_x\<lparr>attr_key := \<lparr>argument = Some ''aaa'', modifiers = []\<rparr>\<rparr>"

definition model_empty_arg :: vattribute where
  "model_empty_arg = model_x\<lparr>attr_key := \<lparr>argument = Some '''', modifiers = []\<rparr>\<rparr>"

lemmas report_defs =
  UnsupportedHost_def DynamicInputType_def FileInputType_def UnexpectedArgument_def
  UnsupportedModifier_def MissingValue_def InvalidLhs_def SelfAliasing_def

lemmas example_defs =
  root_node_def li_node_def input_node_def div_node_def utils_no_def utils_yes_def
  ref_x_def ref_x_member_def ref_a_member_def ref_x_computed_def model_x_def
  model_a_x_def model_x_y_def model_call_def model_no_value_def
  model_empty_def model_arg_def model_empty_arg_def

lemmas check_defs =
  create_def checkElement_def checkInputType_def checkArgument_def checkValue_def
  checkExpression_def isValidElement_def isLhs_def truthy_def hasAttributeValue_def
  VALID_MODIFIERS_def

section \<open>The handler on the concrete inputs\<close>

lemma create_model_x: "create utils_no model_x = [SelfAliasing]"
  by (simp add: check_defs example_defs Let_def)

lemma create_model_x_y: "create utils_no model_x_y = []"
  by (simp add: check_defs example_defs Let_def)

lemma create_model_a_x: "create utils_no model_a_x = []"
  by (simp add: check_defs example_defs Let_def)

lemma create_model_call:
  "create utils_no model_call =
     [UnsupportedHost ''div'', UnsupportedModifier ''foo'', UnsupportedModifier ''foo'',
      InvalidLhs]"
  by (simp add: check_defs example_defs Let_def)

lemma create_model_no_value:
  "create utils_yes model_no_value =
     [DynamicInputType ''input'', FileInputType ''input'', MissingValue]"
  by (simp add: check_defs example_defs Let_def)

lemma create_model_empty: "create utils_no model_empty = [InvalidLhs]"
  by (simp add: check_defs example_defs Let_def)

lemma create_model_arg: "create utils_no model_arg = [UnexpectedArgument, SelfAliasing]"
  by (simp add: check_defs example_defs Let_def)

lemma create_model_empty_arg: "create utils_no model_empty_arg = [SelfAliasing]"
  by (simp add: check_defs example_defs Let_def)

section \<open>The reports of each statement\<close>

lemma message_simps:
  "message (UnsupportedHost nm) = '''v-model' directives aren't supported on <{{name}}> elements.''"
  "message (DynamicInputType nm) = '''v-model' directives don't support dynamic input types.''"
  "message (FileInputType nm) = '''v-model' directives don't support 'file' input type.''"
  "message UnexpectedArgument = '''v-model' directives require no argument.''"
  "message (UnsupportedModifier m) = '''v-model' directives don't support the modifier '{{name}}'.''"
  "message MissingValue = '''v-model' directives require that attribute value.''"
  "message InvalidLhs = '''v-model' directives require the attribute value which is valid as LHS.''"
  "message SelfAliasing = '''v-model' directives cannot update the iteration variable 'x' itself.''"
  by (simp_all add: report_defs)

text \<open>The two loops, as a filter of their input followed by a map.\<close>

lemma checkModifiers_eq:
  "checkModifiers ms = map UnsupportedModifier [m \<leftarrow> ms. m \<notin> VALID_MODIFIERS]"
  by (induction ms) auto

lemma checkReferences_eq:
  "checkReferences element refs =
     map (\<lambda>_. SelfAliasing)
       [r \<leftarrow> refs. id_parent_type (ref_id r) \<noteq> ''MemberExpression'' \<and>
                   getVariable (id_name (ref_id r)) (Some element) \<noteq> None]"
  by (induction refs) (auto simp: Let_def split: option.splits)

lemma create_append:
  "create u node =
     checkElement u (parent_parent node) @ checkInputType u (parent_parent node) @
     checkArgument node @ checkModifiers (modifiers (attr_key node)) @
     checkValue node @ checkExpression (parent_parent node) node"
  by (simp add: create_def Let_def)

text \<open>
  Selecting the reports with one message out of the reports of a loop: all of them when
  the message is the loop's, none otherwise.
\<close>

lemma filter_checkModifiers_same:
  "[r \<leftarrow> checkModifiers ms.
      message r = '''v-model' directives don't support the modifier '{{name}}'.''] =
     checkModifiers ms"
  by (induction ms) (simp_all add: message_simps)

lemma filter_checkModifiers_none:
  "M \<noteq> '''v-model' directives don't support the modifier '{{name}}'.'' \<Longrightarrow>
     [r \<leftarrow> checkModifiers ms. message r = M] = []"
  by (induction ms) (simp_all add: message_simps)

lemma filter_checkReferences_same:
  "[r \<leftarrow> checkReferences element refs.
      message r = '''v-model' directives cannot update the iteration variable 'x' itself.''] =
     checkReferences element refs"
  by (induction refs) (simp_all add: Let_def message_simps split: option.splits)

lemma filter_checkReferences_none:
  "M \<noteq> '''v-model' directives cannot update the iteration variable 'x' itself.'' \<Longrightarrow>
     [r \<leftarrow> checkReferences element refs. message r = M] = []"
  by (induction refs) (simp_all add: Let_def message_simps split: option.splits)

lemmas segment_defs =
  checkElement_def checkInputType_def checkArgument_def checkValue_def checkExpression_def

text \<open>
  The eight messages are pairwise different, so the reports of the handler with a given
  message are the reports of the one statement that uses it.
\<close>

lemma filter_create_host:
  "[r \<leftarrow> create u node. message r = message (UnsupportedHost x)] =
     checkElement u (parent_parent node)"
  by (simp add: create_append segment_defs message_simps filter_checkModifiers_none
      filter_checkReferences_none split: option.splits)

lemma filter_create_dynamic:
  "[r \<leftarrow> create u node. message r = message (DynamicInputType x)] =
     (if name (parent_parent node) = ''input'' \<and>
         hasDirective u (parent_parent node) ''bind'' ''type''
      then [DynamicInputType ''input''] else [])"
  by (simp add: create_append segment_defs message_simps filter_checkModifiers_none
      filter_checkReferences_none split: option.splits)

lemma filter_create_file:
  "[r \<leftarrow> create u node. message r = message (FileInputType x)] =
     (if name (parent_parent node) = ''input'' \<and>
         hasAttribute u (parent_parent node) ''type'' ''file''
      then [FileInputType ''input''] else [])"
  by (simp add: create_append segment_defs message_simps filter_checkModifiers_none
      filter_checkReferences_none split: option.splits)

lemma filter_create_argument:
  "[r \<leftarrow> create u node. message r = message UnexpectedArgument] = checkArgument node"
  by (simp add: create_append segment_defs message_simps filter_checkModifiers_none
      filter_checkReferences_none split: option.splits)

lemma filter_create_missing:
  "[r \<leftarrow> create u node. message r = message MissingValue] = checkValue node"
  by (simp add: create_append segment_defs message_simps filter_checkModifiers_none
      filter_checkReferences_none split: option.splits)

lemma filter_create_lhs:
  "[r \<leftarrow> create u node. message r = message InvalidLhs] =
     (case attr_value node of
        None \<Rightarrow> []
      | Some v \<Rightarrow> if \<not> isLhs (expression v) then [InvalidLhs] else [])"
  by (simp add: create_append segment_defs message_simps filter_checkModifiers_none
      filter_checkReferences_none split: option.splits)

lemma filter_create_alias:
  "[r \<leftarrow> create u node. message r = message SelfAliasing] =
     (case attr_value node of
        None \<Rightarrow> []
      | Some v \<Rightarrow> checkReferences (parent_parent node) (references v))"
  by (simp add: create_append segment_defs message_simps filter_checkModifiers_none
      filter_checkReferences_none filter_checkReferences_same split: option.splits)

lemma filter_create_modifier:
  "[r \<leftarrow> create u node. message r = message (UnsupportedModifier x)] =
     checkModifiers (modifiers (attr_key node))"
  by (simp add: create_append segment_defs message_simps filter_checkModifiers_same
      filter_checkReferences_none split: option.splits)

section \<open>Resolution on the scope chain\<close>

lemma getVariable_scopeChain: "getVariable nm leaf = resolveVariable nm (scopeChain leaf)"
  by (induction nm leaf rule: getVariable.induct) (auto split: option.splits)

lemma find_append_case:
  "find P (xs @ ys) = (case find P xs of None \<Rightarrow> find P ys | Some x \<Rightarrow> Some x)"
  by (induction xs) auto

lemma resolveVariable_find:
  "resolveVariable nm chain = find (\<lambda>v. id_name (var_id v) = nm) (concat chain)"
  by (induction chain) (auto split: option.splits simp: find_append_case)

lemma resolveVariable_None:
  "resolveVariable nm chain = None \<longleftrightarrow>
     (\<forall>frame \<in> set chain. \<forall>v \<in> set frame. id_name (var_id v) \<noteq> nm)"
proof (induction chain)
  case Nil
  then show ?case by simp
next
  case (Cons frame outer)
  show ?case
  proof (cases "find (\<lambda>v. id_name (var_id v) = nm) frame")
    case None
    then have "\<forall>v \<in> set frame. id_name (var_id v) \<noteq> nm"
      by (simp add: find_None_iff)
    with None Cons show ?thesis by simp
  next
    case (Some v)
    then have "v \<in> set frame \<and> id_name (var_id v) = nm"
      by (auto simp: find_Some_iff)
    with Some show ?thesis by auto
  qed
qed

section \<open>The claims\<close>

text \<open>
  C1, as stated, fails. The rule skips a reference on \<^verbatim>\<open>id.parent.type === 'MemberExpression'\<close>
  alone, so it also skips a reference that is the computed property of a member access.
  In \<^verbatim>\<open><li v-for="x in xs"><input v-model="a[x]"></li>\<close> the reference \<open>x\<close> is not the
  object of a member access and its name resolves, so the claim asks for a
  \<open>SelfAliasing\<close>; the handler reports nothing.
\<close>

theorem self_aliasing_counterexample:
  "attr_value model_a_x =
     Some \<lparr>expression = Some \<lparr>expr_type = ''MemberExpression''\<rparr>,
           references = [ref_a_member, ref_x_computed]\<rparr> \<and>
   \<not> isObjectOfMember ref_x_computed \<and>
   getVariable (id_name (ref_id ref_x_computed)) (Some (parent_parent model_a_x)) \<noteq> None \<and>
   SelfAliasing \<notin> set (create utils_no model_a_x) \<and>
   create utils_no model_a_x = []"
  by (simp add: create_model_a_x) (simp add: example_defs isObjectOfMember_def)

text \<open>
  C1, amended. Let the directive carry the value \<open>v\<close>. A reference of \<open>v\<close> is skipped when
  the parent of its identifier is a \<^verbatim>\<open>MemberExpression\<close>, whether the identifier is the
  object or the computed property. The chain starts at the host element itself. Then:
  \<^item> the reports with the self-aliasing message are one \<open>SelfAliasing\<close> for each reference,
    in order, that is not skipped and whose name \<open>getVariable\<close> resolves;
  \<^item> so each such reference puts \<open>SelfAliasing\<close> among the reports;
  \<^item> a name \<open>x\<close> all of whose references are skipped adds nothing: the self-aliasing
    reports are those of the same directive with the references named \<open>x\<close> removed;
  \<^item> in particular this holds of a name used only as the object of member accesses.

  \<open>SelfAliasing\<close> is the report with the self-aliasing message and no data.
\<close>

theorem self_aliasing_findings:
  "(attr_value node = Some v \<longrightarrow>
      [r \<leftarrow> create u node. message r = message SelfAliasing] =
        map (\<lambda>_. SelfAliasing)
          [ref \<leftarrow> references v.
             id_parent_type (ref_id ref) \<noteq> ''MemberExpression'' \<and>
             getVariable (id_name (ref_id ref)) (Some (parent_parent node)) \<noteq> None]) \<and>
   (attr_value node = Some v \<longrightarrow>
      (\<forall>ref \<in> set (references v).
         id_parent_type (ref_id ref) \<noteq> ''MemberExpression'' \<longrightarrow>
         getVariable (id_name (ref_id ref)) (Some (parent_parent node)) \<noteq> None \<longrightarrow>
         SelfAliasing \<in> set (create u node))) \<and>
   (attr_value node = Some v \<longrightarrow>
      (\<forall>ref \<in> set (references v).
         id_name (ref_id ref) = x \<longrightarrow> id_parent_type (ref_id ref) = ''MemberExpression'') \<longrightarrow>
      [r \<leftarrow> create u node. message r = message SelfAliasing] =
        [r \<leftarrow> create u
               (node\<lparr>attr_value :=
                  Some (v\<lparr>references := [ref \<leftarrow> references v. id_name (ref_id ref) \<noteq> x]\<rparr>)\<rparr>).
           message r = message SelfAliasing]) \<and>
   (attr_value node = Some v \<longrightarrow>
      (\<forall>ref \<in> set (references v). id_name (ref_id ref) = x \<longrightarrow> isObjectOfMember ref) \<longrightarrow>
      [r \<leftarrow> create u node. message r = message SelfAliasing] =
        [r \<leftarrow> create u
               (node\<lparr>attr_value :=
                  Some (v\<lparr>references := [ref \<leftarrow> references v. id_name (ref_id ref) \<noteq> x]\<rparr>)\<rparr>).
           message r = message SelfAliasing]) \<and>
   SelfAliasing =
     \<lparr>message = '''v-model' directives cannot update the iteration variable 'x' itself.'',
      data = None\<rparr>"
proof (intro conjI impI)
  show "SelfAliasing =
     \<lparr>message = '''v-model' directives cannot update the iteration variable 'x' itself.'',
      data = None\<rparr>"
    by (simp add: SelfAliasing_def)
next
  let ?Q = "\<lambda>ref. id_parent_type (ref_id ref) \<noteq> ''MemberExpression'' \<and>
    getVariable (id_name (ref_id ref)) (Some (parent_parent node)) \<noteq> None"
  assume v: "attr_value node = Some v"
  then show eq: "[r \<leftarrow> create u node. message r = message SelfAliasing] =
      map (\<lambda>_. SelfAliasing) (filter ?Q (references v))"
    by (simp add: filter_create_alias checkReferences_eq)
  show "\<forall>ref \<in> set (references v).
         id_parent_type (ref_id ref) \<noteq> ''MemberExpression'' \<longrightarrow>
         getVariable (id_name (ref_id ref)) (Some (parent_parent node)) \<noteq> None \<longrightarrow>
         SelfAliasing \<in> set (create u node)"
  proof (intro ballI impI)
    fix ref
    assume "ref \<in> set (references v)"
      and "id_parent_type (ref_id ref) \<noteq> ''MemberExpression''"
      and "getVariable (id_name (ref_id ref)) (Some (parent_parent node)) \<noteq> None"
    then have "ref \<in> set (filter ?Q (references v))" by simp
    then have "SelfAliasing \<in> set (map (\<lambda>_. SelfAliasing) (filter ?Q (references v)))"
      by (metis (no_types, lifting) imageI set_map)
    with eq have "SelfAliasing \<in> set [r \<leftarrow> create u node. message r = message SelfAliasing]"
      by simp
    then show "SelfAliasing \<in> set (create u node)" by simp
  qed
  have removed: "[r \<leftarrow> create u node. message r = message SelfAliasing] =
        [r \<leftarrow> create u
               (node\<lparr>attr_value :=
                  Some (v\<lparr>references := [ref \<leftarrow> references v. id_name (ref_id ref) \<noteq> x]\<rparr>)\<rparr>).
           message r = message SelfAliasing]"
    if skipped: "\<forall>ref \<in> set (references v).
         id_name (ref_id ref) = x \<longrightarrow> id_parent_type (ref_id ref) = ''MemberExpression''"
  proof -
    have "filter ?Q [ref \<leftarrow> references v. id_name (ref_id ref) \<noteq> x] = filter ?Q (references v)"
      using skipped by (auto intro: filter_cong)
    with v show ?thesis
      by (simp add: filter_create_alias checkReferences_eq)
  qed
  {
    assume "\<forall>ref \<in> set (references v).
         id_name (ref_id ref) = x \<longrightarrow> id_parent_type (ref_id ref) = ''MemberExpression''"
    then show "[r \<leftarrow> create u node. message r = message SelfAliasing] =
        [r \<leftarrow> create u
               (node\<lparr>attr_value :=
                  Some (v\<lparr>references := [ref \<leftarrow> references v. id_name (ref_id ref) \<noteq> x]\<rparr>)\<rparr>).
           message r = message SelfAliasing]"
      by (rule removed)
  }
  {
    assume "\<forall>ref \<in> set (references v). id_name (ref_id ref) = x \<longrightarrow> isObjectOfMember ref"
    then have "\<forall>ref \<in> set (references v).
         id_name (ref_id ref) = x \<longrightarrow> id_parent_type (ref_id ref) = ''MemberExpression''"
      by (simp add: isObjectOfMember_def)
    then show "[r \<leftarrow> create u node. message r = message SelfAliasing] =
        [r \<leftarrow> create u
               (node\<lparr>attr_value :=
                  Some (v\<lparr>references := [ref \<leftarrow> references v. id_name (ref_id ref) \<noteq> x]\<rparr>)\<rparr>).
           message r = message SelfAliasing]"
      by (rule removed)
  }
qed


theorem self_aliasing_findings_witness:
  "attr_value model_x = Some \<lparr>expression = Some \<lparr>expr_type = ''Identifier''\<rparr>, references = [ref_x]\<rparr> \<and>
   id_parent_type (ref_id ref_x) \<noteq> ''MemberExpression'' \<and>
   getVariable (id_name (ref_id ref_x)) (Some (parent_parent model_x)) \<noteq> None \<and>
   SelfAliasing \<in> set (create utils_no model_x) \<and>
   [r \<leftarrow> create utils_no model_x. message r = message SelfAliasing] = [SelfAliasing] \<and>
   attr_value model_x_y =
     Some \<lparr>expression = Some \<lparr>expr_type = ''MemberExpression''\<rparr>, references = [ref_x_member]\<rparr> \<and>
   id_parent_type (ref_id ref_x_member) = ''MemberExpression'' \<and>
   isObjectOfMember ref_x_member \<and>
   getVariable (id_name (ref_id ref_x_member)) (Some (parent_parent model_x_y)) \<noteq> None \<and>
   [r \<leftarrow> create utils_no model_x_y. message r = message SelfAliasing] = []"
  using self_aliasing_findings [of model_x
      "\<lparr>expression = Some \<lparr>expr_type = ''Identifier''\<rparr>, references = [ref_x]\<rparr>" utils_no "''y''"]
    self_aliasing_findings [of model_x_y
      "\<lparr>expression = Some \<lparr>expr_type = ''MemberExpression''\<rparr>, references = [ref_x_member]\<rparr>"
      utils_no "''x''"]
  by (simp add: example_defs isObjectOfMember_def)

text \<open>
  C2. \<open>getVariable\<close> on the parent chain of a node is the specification's
  \<open>resolveVariable\<close> on the frames of that chain, innermost first; it returns the first
  variable with the name in that order, and \<open>None\<close> exactly when no frame of the chain
  owns a variable with the name. The source function assigns to nothing but its local
  \<^verbatim>\<open>node\<close>, so it is embedded as a function of the name and the chain that returns the
  variable only: no frame has a later state that could differ.
\<close>

theorem getVariable_first_match:
  "getVariable nm leaf = resolveVariable nm (scopeChain leaf) \<and>
   getVariable nm leaf = find (\<lambda>v. id_name (var_id v) = nm) (concat (scopeChain leaf)) \<and>
   (getVariable nm leaf = None \<longleftrightarrow>
      (\<forall>frame \<in> set (scopeChain leaf). \<forall>v \<in> set frame. id_name (var_id v) \<noteq> nm))"
  by (simp add: getVariable_scopeChain resolveVariable_find [symmetric] resolveVariable_None)

theorem getVariable_first_match_witness:
  "getVariable ''y'' (Some input_node) = None \<and>
   getVariable ''x'' (Some input_node) =
     Some \<lparr>var_id = \<lparr>id_name = ''x'', id_parent_type = ''VForExpression'',
                       id_parent_object = False\<rparr>\<rparr> \<and>
   scopeChain (Some input_node) =
     [[], [\<lparr>var_id = \<lparr>id_name = ''x'', id_parent_type = ''VForExpression'',
                       id_parent_object = False\<rparr>\<rparr>], []]"
  using getVariable_first_match [of "''y''" "Some input_node"]
    getVariable_first_match [of "''x''" "Some input_node"]
  by (simp add: example_defs)

text \<open>
  C3. \<open>isValidElement\<close> holds exactly when the name of the element is \<^verbatim>\<open>input\<close>,
  \<^verbatim>\<open>select\<close> or \<^verbatim>\<open>textarea\<close>, or the element is a custom component (the helper
  \<^verbatim>\<open>utils.isCustomComponent\<close>, a parameter) whose name is none of \<^verbatim>\<open>keep-alive\<close>,
  \<^verbatim>\<open>slot\<close>, \<^verbatim>\<open>transition\<close>, \<^verbatim>\<open>transition-group\<close>. On a host where it fails, the reports
  of any directive, whatever its argument, modifiers and value, include
  \<open>UnsupportedHost\<close> with the name of the host as its data.
\<close>

theorem unsupported_host:
  "(isValidElement u element \<longleftrightarrow>
      name element \<in> {''input'', ''select'', ''textarea''} \<or>
      (isCustomComponent u element \<and>
       name element \<notin> {''keep-alive'', ''slot'', ''transition'', ''transition-group''})) \<and>
   (\<not> isValidElement u (parent_parent node) \<longrightarrow>
      UnsupportedHost (name (parent_parent node)) \<in> set (create u node) \<and>
      data (UnsupportedHost (name (parent_parent node))) =
        Some [(''name'', name (parent_parent node))])"
proof (intro conjI impI)
  show "isValidElement u element \<longleftrightarrow>
      name element \<in> {''input'', ''select'', ''textarea''} \<or>
      (isCustomComponent u element \<and>
       name element \<notin> {''keep-alive'', ''slot'', ''transition'', ''transition-group''})"
    by (auto simp: isValidElement_def Let_def)
  assume "\<not> isValidElement u (parent_parent node)"
  then show "UnsupportedHost (name (parent_parent node)) \<in> set (create u node)"
    by (simp add: create_append checkElement_def)
  show "data (UnsupportedHost (name (parent_parent node))) =
        Some [(''name'', name (parent_parent node))]"
    by (simp add: UnsupportedHost_def)
qed

theorem unsupported_host_witness:
  "\<not> isValidElement utils_no (parent_parent model_call) \<and>
   name (parent_parent model_call) = ''div'' \<and>
   UnsupportedHost ''div'' \<in> set (create utils_no model_call) \<and>
   isValidElement utils_no input_node"
  using unsupported_host [of utils_no input_node model_call]
  by (simp add: example_defs isValidElement_def)

text \<open>
  C4. \<open>isLhs\<close> holds exactly for an expression that is present and whose type is
  \<^verbatim>\<open>Identifier\<close> or \<^verbatim>\<open>MemberExpression\<close>; a directive with a value whose expression
  fails \<open>isLhs\<close> has \<open>InvalidLhs\<close> among its reports.
\<close>

theorem invalid_lhs:
  "(isLhs e \<longleftrightarrow>
      (\<exists>n. e = Some n \<and> (expr_type n = ''Identifier'' \<or> expr_type n = ''MemberExpression''))) \<and>
   (attr_value node = Some v \<longrightarrow> \<not> isLhs (expression v) \<longrightarrow>
      InvalidLhs \<in> set (create u node))"
  by (auto simp: isLhs_def create_append checkExpression_def split: option.splits)

theorem invalid_lhs_witness:
  "attr_value model_call =
     Some \<lparr>expression = Some \<lparr>expr_type = ''CallExpression''\<rparr>, references = []\<rparr> \<and>
   \<not> isLhs (Some \<lparr>expr_type = ''CallExpression''\<rparr>) \<and>
   InvalidLhs \<in> set (create utils_no model_call) \<and>
   isLhs (Some \<lparr>expr_type = ''Identifier''\<rparr>) \<and>
   isLhs (Some \<lparr>expr_type = ''MemberExpression''\<rparr>)"
  using invalid_lhs [of "Some \<lparr>expr_type = ''CallExpression''\<rparr>" model_call
      "\<lparr>expression = Some \<lparr>expr_type = ''CallExpression''\<rparr>, references = []\<rparr>" utils_no]
  by (simp add: example_defs isLhs_def)

text \<open>
  C5. A directive without a value (\<^verbatim>\<open>node.value\<close> is \<^verbatim>\<open>null\<close>) has \<open>MissingValue\<close> among
  its reports; the statement guarded by \<^verbatim>\<open>if (node.value)\<close> reports nothing, and no
  report of the directive has the message of \<open>InvalidLhs\<close> or of \<open>SelfAliasing\<close>.
\<close>

theorem missing_value:
  "attr_value node = None \<longrightarrow>
     MissingValue \<in> set (create u node) \<and>
     checkExpression (parent_parent node) node = [] \<and>
     (\<forall>r \<in> set (create u node).
        message r \<noteq> message InvalidLhs \<and> message r \<noteq> message SelfAliasing)"
proof (intro impI conjI)
  assume none: "attr_value node = None"
  then show "MissingValue \<in> set (create u node)"
    by (simp add: create_append checkValue_def hasAttributeValue_def)
  from none show "checkExpression (parent_parent node) node = []"
    by (simp add: checkExpression_def)
  from none have "[r \<leftarrow> create u node. message r = message InvalidLhs] = []"
    and "[r \<leftarrow> create u node. message r = message SelfAliasing] = []"
    by (simp_all add: filter_create_lhs filter_create_alias)
  then show "\<forall>r \<in> set (create u node).
        message r \<noteq> message InvalidLhs \<and> message r \<noteq> message SelfAliasing"
    by (simp add: filter_empty_conv)
qed

theorem missing_value_witness:
  "attr_value model_no_value = None \<and>
   MissingValue \<in> set (create utils_yes model_no_value) \<and>
   InvalidLhs \<notin> set (create utils_yes model_no_value) \<and>
   SelfAliasing \<notin> set (create utils_yes model_no_value)"
  using missing_value [of model_no_value utils_yes]
  by (auto simp: example_defs)

text \<open>
  C6. Taking from the reports of a directive those with the modifier message leaves
  exactly one report for each occurrence of a modifier outside \<open>lazy\<close>, \<open>number\<close>,
  \<open>trim\<close>, in the order of \<^verbatim>\<open>node.key.modifiers\<close>; the report of the modifier \<open>m\<close> has
  the modifier message and the data \<^verbatim>\<open>{ name: m }\<close>. A modifier that occurs twice is
  reported twice, and the three allowed modifiers are not reported.
\<close>

theorem unsupported_modifier_findings:
  "[r \<leftarrow> create u node.
      message r = '''v-model' directives don't support the modifier '{{name}}'.''] =
     map (\<lambda>m. \<lparr>message = '''v-model' directives don't support the modifier '{{name}}'.'',
               data = Some [(''name'', m)]\<rparr>)
       [m \<leftarrow> modifiers (attr_key node). m \<notin> {''lazy'', ''number'', ''trim''}]"
proof -
  have "[r \<leftarrow> create u node.
           message r = '''v-model' directives don't support the modifier '{{name}}'.''] =
        [r \<leftarrow> create u node. message r = message (UnsupportedModifier [])]"
    by (simp add: UnsupportedModifier_def)
  also have "\<dots> = map UnsupportedModifier
       [m \<leftarrow> modifiers (attr_key node). m \<notin> {''lazy'', ''number'', ''trim''}]"
    by (simp add: filter_create_modifier checkModifiers_eq VALID_MODIFIERS_def)
  also have "\<dots> =
     map (\<lambda>m. \<lparr>message = '''v-model' directives don't support the modifier '{{name}}'.'',
               data = Some [(''name'', m)]\<rparr>)
       [m \<leftarrow> modifiers (attr_key node). m \<notin> {''lazy'', ''number'', ''trim''}]"
    by (simp add: UnsupportedModifier_def)
  finally show ?thesis .
qed

text \<open>
  C7. The reports with the dynamic-type message are the single \<open>DynamicInputType\<close> when
  the host is named \<^verbatim>\<open>input\<close> and \<^verbatim>\<open>utils.hasDirective(element, 'bind', 'type')\<close> holds,
  and none otherwise; likewise \<open>FileInputType\<close> with
  \<^verbatim>\<open>utils.hasAttribute(element, 'type', 'file')\<close>. So on an \<^verbatim>\<open>input\<close> each is reported
  when its helper holds, and on a host of any other name no report has either message.
\<close>

theorem input_type_findings:
  "[r \<leftarrow> create u node. message r = message (DynamicInputType x)] =
     (if name (parent_parent node) = ''input'' \<and>
         hasDirective u (parent_parent node) ''bind'' ''type''
      then [DynamicInputType ''input''] else []) \<and>
   [r \<leftarrow> create u node. message r = message (FileInputType x)] =
     (if name (parent_parent node) = ''input'' \<and>
         hasAttribute u (parent_parent node) ''type'' ''file''
      then [FileInputType ''input''] else []) \<and>
   (name (parent_parent node) = ''input'' \<longrightarrow>
      (hasDirective u (parent_parent node) ''bind'' ''type'' \<longrightarrow>
         DynamicInputType ''input'' \<in> set (create u node)) \<and>
      (hasAttribute u (parent_parent node) ''type'' ''file'' \<longrightarrow>
         FileInputType ''input'' \<in> set (create u node))) \<and>
   (name (parent_parent node) \<noteq> ''input'' \<longrightarrow>
      (\<forall>r \<in> set (create u node).
         message r \<noteq> message (DynamicInputType x) \<and>
         message r \<noteq> message (FileInputType x)))"
proof -
  let ?e = "parent_parent node"
  have dyn: "[r \<leftarrow> create u node. message r = message (DynamicInputType x)] =
     (if name ?e = ''input'' \<and> hasDirective u ?e ''bind'' ''type''
      then [DynamicInputType ''input''] else [])"
    by (rule filter_create_dynamic)
  have fil: "[r \<leftarrow> create u node. message r = message (FileInputType x)] =
     (if name ?e = ''input'' \<and> hasAttribute u ?e ''type'' ''file''
      then [FileInputType ''input''] else [])"
    by (rule filter_create_file)
  have emitted: "name ?e = ''input'' \<longrightarrow>
      (hasDirective u ?e ''bind'' ''type'' \<longrightarrow> DynamicInputType ''input'' \<in> set (create u node)) \<and>
      (hasAttribute u ?e ''type'' ''file'' \<longrightarrow> FileInputType ''input'' \<in> set (create u node))"
    by (simp add: create_append checkInputType_def)
  have other: "name ?e \<noteq> ''input'' \<longrightarrow>
      (\<forall>r \<in> set (create u node).
         message r \<noteq> message (DynamicInputType x) \<and>
         message r \<noteq> message (FileInputType x))"
  proof
    assume "name ?e \<noteq> ''input''"
    with dyn fil have "[r \<leftarrow> create u node. message r = message (DynamicInputType x)] = []"
      and "[r \<leftarrow> create u node. message r = message (FileInputType x)] = []"
      by simp_all
    then show "\<forall>r \<in> set (create u node).
         message r \<noteq> message (DynamicInputType x) \<and>
         message r \<noteq> message (FileInputType x)"
      by (simp add: filter_empty_conv)
  qed
  from dyn fil emitted other show ?thesis by (intro conjI)
qed

theorem input_type_findings_witness:
  "name (parent_parent model_no_value) = ''input'' \<and>
   hasDirective utils_yes (parent_parent model_no_value) ''bind'' ''type'' \<and>
   hasAttribute utils_yes (parent_parent model_no_value) ''type'' ''file'' \<and>
   DynamicInputType ''input'' \<in> set (create utils_yes model_no_value) \<and>
   FileInputType ''input'' \<in> set (create utils_yes model_no_value) \<and>
   name (parent_parent model_call) \<noteq> ''input'' \<and>
   hasDirective utils_yes (parent_parent model_call) ''bind'' ''type'' \<and>
   hasAttribute utils_yes (parent_parent model_call) ''type'' ''file'' \<and>
   [r \<leftarrow> create utils_yes model_call. message r = message (DynamicInputType ''div'')] = [] \<and>
   [r \<leftarrow> create utils_yes model_call. message r = message (FileInputType ''div'')] = []"
  using input_type_findings [where u = utils_yes and node = model_no_value and x = "''input''"]
    input_type_findings [where u = utils_yes and node = model_call and x = "''div''"]
  by (simp add: example_defs)

text \<open>
  C8, as stated, fails: \<^verbatim>\<open>if (node.key.argument)\<close> tests truthiness, and the empty string
  is a string that is not \<^verbatim>\<open>null\<close> and not truthy. The directive \<open>model_empty_arg\<close> has
  such an argument and no \<open>UnexpectedArgument\<close> among its reports.
\<close>

theorem unexpected_argument_counterexample:
  "argument (attr_key model_empty_arg) \<noteq> None \<and>
   UnexpectedArgument \<notin> set (create utils_no model_empty_arg)"
  by (simp add: create_model_empty_arg report_defs) (simp add: example_defs)

text \<open>
  C8, amended. \<open>UnexpectedArgument\<close> is among the reports of a directive exactly when its
  argument is a string other than the empty one, whatever its modifiers and value; with
  argument \<^verbatim>\<open>null\<close> no report has that message.
\<close>

theorem unexpected_argument:
  "(UnexpectedArgument \<in> set (create u node) \<longleftrightarrow>
      (\<exists>a. argument (attr_key node) = Some a \<and> a \<noteq> '''')) \<and>
   (argument (attr_key node) = None \<longrightarrow>
      (\<forall>r \<in> set (create u node). message r \<noteq> message UnexpectedArgument))"
proof -
  have eq: "[r \<leftarrow> create u node. message r = message UnexpectedArgument] = checkArgument node"
    by (rule filter_create_argument)
  have "UnexpectedArgument \<in> set (create u node) \<longleftrightarrow>
      UnexpectedArgument \<in> set [r \<leftarrow> create u node. message r = message UnexpectedArgument]"
    by simp
  also have "\<dots> \<longleftrightarrow> truthy (argument (attr_key node))"
    unfolding eq by (simp add: checkArgument_def)
  also have "\<dots> \<longleftrightarrow> (\<exists>a. argument (attr_key node) = Some a \<and> a \<noteq> '''')"
    by (simp add: truthy_def split: option.splits)
  finally have iff: "UnexpectedArgument \<in> set (create u node) \<longleftrightarrow>
      (\<exists>a. argument (attr_key node) = Some a \<and> a \<noteq> '''')" .
  have "argument (attr_key node) = None \<longrightarrow>
      (\<forall>r \<in> set (create u node). message r \<noteq> message UnexpectedArgument)"
  proof
    assume "argument (attr_key node) = None"
    then have "[r \<leftarrow> create u node. message r = message UnexpectedArgument] = []"
      unfolding eq by (simp add: checkArgument_def truthy_def)
    then show "\<forall>r \<in> set (create u node). message r \<noteq> message UnexpectedArgument"
      by (simp add: filter_empty_conv)
  qed
  with iff show ?thesis by simp
qed

theorem unexpected_argument_witness:
  "argument (attr_key model_arg) = Some ''aaa'' \<and>
   UnexpectedArgument \<in> set (create utils_no model_arg) \<and>
   argument (attr_key model_x) = None \<and>
   UnexpectedArgument \<notin> set (create utils_no model_x)"
  using unexpected_argument [of utils_no model_arg] unexpected_argument [of utils_no model_x]
  by (simp add: example_defs)

text \<open>
  C9. The reports of the loop over the references are copies of one record: its message
  is the literal text with the placeholder \<^verbatim>\<open>'x'\<close> and it has no data, whichever names
  were resolved; only their number depends on the references.
\<close>

theorem self_aliasing_message:
  "checkReferences element refs =
     replicate
       (length [ref \<leftarrow> refs.
                  id_parent_type (ref_id ref) \<noteq> ''MemberExpression'' \<and>
                  getVariable (id_name (ref_id ref)) (Some element) \<noteq> None])
       \<lparr>message = '''v-model' directives cannot update the iteration variable 'x' itself.'',
        data = None\<rparr>"
  by (simp add: checkReferences_eq SelfAliasing_def map_replicate_const)

text \<open>
  C10. \<open>isLhs\<close> of a missing expression is false: the test \<^verbatim>\<open>node != null\<close> comes before
  the read of \<^verbatim>\<open>node.type\<close>. A directive whose value has no expression therefore reports
  \<open>InvalidLhs\<close>, and the handler goes on to the loop over the references.
\<close>

theorem null_expression:
  "\<not> isLhs None \<and>
   (attr_value node = Some v \<longrightarrow> expression v = None \<longrightarrow>
      InvalidLhs \<in> set (create u node) \<and>
      checkExpression (parent_parent node) node =
        InvalidLhs # checkReferences (parent_parent node) (references v))"
  by (simp add: isLhs_def create_append checkExpression_def)

theorem null_expression_witness:
  "attr_value model_empty = Some \<lparr>expression = None, references = []\<rparr> \<and>
   expression \<lparr>expression = None, references = []\<rparr> = None \<and>
   InvalidLhs \<in> set (create utils_no model_empty)"
  using null_expression [of model_empty "\<lparr>expression = None, references = []\<rparr>" utils_no]
  by (simp add: example_defs)

end
